theory Spec2Isabelle
  imports Complex_Main
begin

section \<open>Python values and library functions used by pysg\<close>

text \<open>
  Python floats are modelled by the real numbers: arithmetic is exact, and the
  rounding of IEEE doubles is not part of the model. Every operation that can
  raise in Python returns a sum, with the exception on the left.
\<close>

datatype py_error =
  ZeroDivisionError | ValueError | FloatingPointError | AssertionError | NotImplementedError

definition py_truediv :: "real \<Rightarrow> real \<Rightarrow> py_error + real" where
  \<comment> \<open>Python's \<open>x / y\<close> on floats: raises ZeroDivisionError for a zero divisor.\<close>
  "py_truediv x y = (if y = 0 then Inl ZeroDivisionError else Inr (x / y))"

definition math_sqrt :: "real \<Rightarrow> py_error + real" where
  \<comment> \<open>\<open>math.sqrt\<close>: raises ValueError (math domain error) below zero.\<close>
  "math_sqrt x = (if x < 0 then Inl ValueError else Inr (sqrt x))"

definition bind_err :: "'e + 'a \<Rightarrow> ('a \<Rightarrow> 'e + 'b) \<Rightarrow> 'e + 'b" where
  \<comment> \<open>Sequencing: an exception raised by the first computation propagates.\<close>
  "bind_err m f = (case m of Inl e \<Rightarrow> Inl e | Inr x \<Rightarrow> f x)"

section \<open>math.py: solve_quadratic_equation\<close>

definition solve_quadratic_equation :: "real \<Rightarrow> real \<Rightarrow> real \<Rightarrow> py_error + real list" where
  "solve_quadratic_equation a b c =
     (let delta = b * b - 4 * a * c in
      if delta > 0 then
        bind_err (math_sqrt delta) (\<lambda>r.
        let q = (if b > 0 then - (1 / 2) * (b + r) else - (1 / 2) * (b - r)) in
        bind_err (py_truediv q a) (\<lambda>s1.
        bind_err (py_truediv c q) (\<lambda>s2.
        Inr [s1, s2])))
      else if delta = 0 then
        bind_err (py_truediv (- b) (2 * a)) (\<lambda>s. Inr [s])
      else
        Inr [])"

section \<open>math.py: is_angle\<close>

text \<open>
  \<open>is_angle\<close> compares against \<open>math.inf\<close>, so its numbers are floats with the
  two infinities and NaN; a comparison with NaN is false.
\<close>

datatype py_float = Fin real | PosInf | NegInf | NaN

fun float_le :: "py_float \<Rightarrow> py_float \<Rightarrow> bool" where
  "float_le NaN _ = False"
| "float_le _ NaN = False"
| "float_le NegInf _ = True"
| "float_le _ PosInf = True"
| "float_le (Fin x) (Fin y) = (x \<le> y)"
| "float_le (Fin x) NegInf = False"
| "float_le PosInf (Fin y) = False"
| "float_le PosInf NegInf = False"

definition is_angle :: "py_float \<Rightarrow> bool \<Rightarrow> bool \<Rightarrow> bool \<Rightarrow> bool" where
  \<comment> \<open>Arguments: angle, in_degrees, allow_negative, limit_to_circle.\<close>
  "is_angle angle in_degrees allow_negative limit_to_circle =
     (let (upper_limit, lower_limit) =
        (if limit_to_circle then
           (if in_degrees then Fin 360 else Fin (2 * pi),
            if allow_negative then Fin (- 360) else Fin 0)
         else
           (PosInf,
            if allow_negative then NegInf else Fin 0))
      in float_le lower_limit angle \<and> float_le angle upper_limit)"

section \<open>math.py: ray_intersect_sphere\<close>

type_synonym vec3 = "real \<times> real \<times> real"

fun vec3_sub :: "vec3 \<Rightarrow> vec3 \<Rightarrow> vec3" where
  "vec3_sub (a0, a1, a2) (b0, b1, b2) = (a0 - b0, a1 - b1, a2 - b2)"

fun vec3_add :: "vec3 \<Rightarrow> vec3 \<Rightarrow> vec3" where
  "vec3_add (a0, a1, a2) (b0, b1, b2) = (a0 + b0, a1 + b1, a2 + b2)"

fun vec3_scale :: "vec3 \<Rightarrow> real \<Rightarrow> vec3" where
  "vec3_scale (a0, a1, a2) t = (a0 * t, a1 * t, a2 * t)"

fun np_dot3 :: "vec3 \<Rightarrow> vec3 \<Rightarrow> real" where
  "np_dot3 (a0, a1, a2) (b0, b1, b2) = a0 * b0 + a1 * b1 + a2 * b2"

text \<open>
  A pyrr ray is the pair of its origin and its direction; a pyrr sphere is its
  centre and its radius.
\<close>

record ray =
  ray_position :: vec3
  ray_direction :: vec3

record sphere =
  sphere_position :: vec3
  sphere_radius :: real

fun intersection_points :: "vec3 \<Rightarrow> vec3 \<Rightarrow> real list \<Rightarrow> vec3 list \<Rightarrow> vec3 list" where
  \<comment> \<open>The loop \<open>for t in t_list\<close>, with the list \<open>ret\<close> built so far.\<close>
  "intersection_points ray_origin ray_dir [] ret = ret"
| "intersection_points ray_origin ray_dir (t # t_list) ret =
     intersection_points ray_origin ray_dir t_list
       (if t \<ge> 0 then ret @ [vec3_add ray_origin (vec3_scale ray_dir t)] else ret)"

definition ray_intersect_sphere :: "ray \<Rightarrow> sphere \<Rightarrow> py_error + vec3 list" where
  "ray_intersect_sphere ry sph =
     (let sphere_center = sphere_position sph;
          radius = sphere_radius sph;
          ray_origin = ray_position ry;
          ray_dir = ray_direction ry;
          a = 1;
          b = 2 * np_dot3 ray_dir (vec3_sub ray_origin sphere_center);
          c = np_dot3 (vec3_sub ray_origin sphere_center) (vec3_sub ray_origin sphere_center)
              - radius * radius
      in bind_err (solve_quadratic_equation a b c) (\<lambda>t_list.
         Inr (intersection_points ray_origin ray_dir t_list [])))"

section \<open>math.py: quaternions\<close>

text \<open>A pyrr quaternion is the array \<open>[x, y, z, w]\<close>.\<close>

datatype quaternion = Quaternion (qx: real) (qy: real) (qz: real) (qw: real)

fun quaternion_dot :: "quaternion \<Rightarrow> quaternion \<Rightarrow> real" where
  "quaternion_dot (Quaternion x1 y1 z1 w1) (Quaternion x2 y2 z2 w2) =
     x1 * x2 + y1 * y2 + z1 * z2 + w1 * w2"

fun quaternion_neg :: "quaternion \<Rightarrow> quaternion" where
  "quaternion_neg (Quaternion x y z w) = Quaternion (- x) (- y) (- z) (- w)"

fun quaternion_cross :: "quaternion \<Rightarrow> quaternion \<Rightarrow> quaternion" where
  \<comment> \<open>pyrr's product of two quaternions (the Hamilton product), which composes rotations.\<close>
  "quaternion_cross (Quaternion x1 y1 z1 w1) (Quaternion x2 y2 z2 w2) =
     Quaternion
       (x1 * w2 + y1 * z2 - z1 * y2 + w1 * x2)
       (- x1 * z2 + y1 * w2 + z1 * x2 + w1 * y2)
       (x1 * y2 - y1 * x2 + z1 * w2 + w1 * z2)
       (- x1 * x2 - y1 * y2 - z1 * z2 + w1 * w2)"

fun create_from_axis_rotation :: "vec3 \<Rightarrow> real \<Rightarrow> quaternion" where
  \<comment> \<open>pyrr's quaternion of the rotation by \<open>theta\<close> about a unit axis.\<close>
  "create_from_axis_rotation (a0, a1, a2) theta =
     Quaternion (sin (theta * (1 / 2)) * a0) (sin (theta * (1 / 2)) * a1)
       (sin (theta * (1 / 2)) * a2) (cos (theta * (1 / 2)))"

definition quaternion_are_equal :: "quaternion \<Rightarrow> quaternion \<Rightarrow> real option \<Rightarrow> bool" where
  \<comment> \<open>The optional argument \<open>epsilon\<close> is \<open>None\<close> when the caller leaves it out.\<close>
  "quaternion_are_equal q1 q2 epsilon_arg =
     (let epsilon = (case epsilon_arg of None \<Rightarrow> 1 / 10 ^ 12 | Some e \<Rightarrow> e)
      in \<bar>quaternion_dot q1 q2\<bar> > 1 - epsilon)"

section \<open>math.py: Euler angles\<close>

definition math_atan2 :: "real \<Rightarrow> real \<Rightarrow> real" where
  \<comment> \<open>\<open>math.atan2(y, x)\<close>: the angle of the point \<open>(x, y)\<close>, in \<open>(-pi, pi]\<close>.\<close>
  "math_atan2 y x =
     (if x > 0 then arctan (y / x)
      else if x < 0 then (if y \<ge> 0 then arctan (y / x) + pi else arctan (y / x) - pi)
      else if y > 0 then pi / 2
      else if y < 0 then - (pi / 2)
      else 0)"

definition math_asin :: "real \<Rightarrow> py_error + real" where
  \<comment> \<open>\<open>math.asin\<close>: raises ValueError outside \<open>[-1, 1]\<close>.\<close>
  "math_asin v = (if v < - 1 \<or> 1 < v then Inl ValueError else Inr (arcsin v))"

definition np_truediv :: "real \<Rightarrow> real \<Rightarrow> py_error + real" where
  \<comment> \<open>Division of numpy scalars (the components of a pyrr quaternion): a zero
      divisor gives no real number (inf or nan with a RuntimeWarning, FloatingPointError
      under \<open>np.seterr(all='raise')\<close>); the model stops there.\<close>
  "np_truediv v u = (if u = 0 then Inl FloatingPointError else Inr (v / u))"

definition np_rad2deg :: "real \<Rightarrow> real" where
  "np_rad2deg r = r * (180 / pi)"

definition quaternion_to_euler_angles :: "quaternion \<Rightarrow> py_error + vec3" where
  "quaternion_to_euler_angles q =
     (let sqw = qw q * qw q;
          sqx = qx q * qx q;
          sqy = qy q * qy q;
          sqz = qz q * qz q;
          unit = sqx + sqy + sqz + sqw;
          test = qx q * qy q + qz q * qw q
      in bind_err
           (if test > (499 / 1000) * unit then
              Inr (2 * math_atan2 (qx q) (qw q), pi / 2, 0)
            else if test < - (499 / 1000) * unit then
              Inr (- 2 * math_atan2 (qx q) (qw q), - pi / 2, 0)
            else
              bind_err (np_truediv (2 * test) unit) (\<lambda>ratio.
              bind_err (math_asin ratio) (\<lambda>attitude.
              Inr (math_atan2 (2 * qy q * qw q - 2 * qx q * qz q) (sqx - sqy - sqz + sqw),
                   attitude,
                   math_atan2 (2 * qx q * qw q - 2 * qy q * qz q) (- sqx + sqy - sqz + sqw)))))
           (\<lambda>(heading, attitude, bank).
              Inr (np_rad2deg bank, np_rad2deg heading, np_rad2deg attitude)))"







section \<open>math.py: compose_matrix\<close>

text \<open>
  A \<open>Matrix44\<close> is a numpy array of four rows. OpenGL reads the sixteen numbers of
  the array column by column: the array row \<open>i\<close> is column \<open>i\<close> of the matrix that
  OpenGL applies to column vectors.
\<close>

type_synonym vec4 = "real \<times> real \<times> real \<times> real"
type_synonym mat44 = "vec4 \<times> vec4 \<times> vec4 \<times> vec4"

fun vec4_add :: "vec4 \<Rightarrow> vec4 \<Rightarrow> vec4" where
  "vec4_add (a0, a1, a2, a3) (b0, b1, b2, b3) = (a0 + b0, a1 + b1, a2 + b2, a3 + b3)"

fun vec4_scale :: "real \<Rightarrow> vec4 \<Rightarrow> vec4" where
  "vec4_scale t (a0, a1, a2, a3) = (t * a0, t * a1, t * a2, t * a3)"

fun np_dot4 :: "vec4 \<Rightarrow> vec4 \<Rightarrow> real" where
  "np_dot4 (a0, a1, a2, a3) (b0, b1, b2, b3) = a0 * b0 + a1 * b1 + a2 * b2 + a3 * b3"

fun transpose44 :: "mat44 \<Rightarrow> mat44" where
  "transpose44 ((a00, a01, a02, a03), (a10, a11, a12, a13),
                (a20, a21, a22, a23), (a30, a31, a32, a33)) =
     ((a00, a10, a20, a30), (a01, a11, a21, a31),
      (a02, a12, a22, a32), (a03, a13, a23, a33))"

fun mat_vec :: "mat44 \<Rightarrow> vec4 \<Rightarrow> vec4" where
  \<comment> \<open>A matrix, given by its rows, applied to a column vector.\<close>
  "mat_vec (r0, r1, r2, r3) v = (np_dot4 r0 v, np_dot4 r1 v, np_dot4 r2 v, np_dot4 r3 v)"

fun np_dot44 :: "mat44 \<Rightarrow> mat44 \<Rightarrow> mat44" where
  \<comment> \<open>\<open>numpy.dot\<close> of two 4x4 arrays: entry \<open>(i, j)\<close> is row \<open>i\<close> of the first times
      column \<open>j\<close> of the second.\<close>
  "np_dot44 (r0, r1, r2, r3) m =
     (mat_vec (transpose44 m) r0, mat_vec (transpose44 m) r1,
      mat_vec (transpose44 m) r2, mat_vec (transpose44 m) r3)"

definition matrix44_mul :: "mat44 \<Rightarrow> mat44 \<Rightarrow> mat44" where
  \<comment> \<open>The operator \<open>*\<close> of pyrr's \<open>Matrix44\<close> objects: \<open>m1 * m2\<close> is
      \<open>matrix44.multiply(m2, m1)\<close>, that is \<open>numpy.dot(m2, m1)\<close>.\<close>
  "matrix44_mul m1 m2 = np_dot44 m2 m1"

definition matrix44_identity :: mat44 where
  "matrix44_identity = ((1, 0, 0, 0), (0, 1, 0, 0), (0, 0, 1, 0), (0, 0, 0, 1))"

definition gl_matrix :: "mat44 \<Rightarrow> mat44" where
  \<comment> \<open>The matrix OpenGL sees in an array, by rows.\<close>
  "gl_matrix m = transpose44 m"

definition gl_apply :: "mat44 \<Rightarrow> vec4 \<Rightarrow> vec4" where
  \<comment> \<open>What the matrix OpenGL sees in an array does to a column vector.\<close>
  "gl_apply m v = mat_vec (gl_matrix m) v"

fun translation_matrix :: "vec3 \<Rightarrow> mat44" where
  "translation_matrix (p0, p1, p2) =
     ((1, 0, 0, 0),
      (0, 1, 0, 0),
      (0, 0, 1, 0),
      (p0, p1, p2, 1))"

fun scale_matrix :: "vec3 \<Rightarrow> mat44" where
  "scale_matrix (s0, s1, s2) =
     ((s0, 0, 0, 0),
      (0, s1, 0, 0),
      (0, 0, s2, 0),
      (0, 0, 0, 1))"

definition compose_matrix :: "(quaternion \<Rightarrow> mat44) \<Rightarrow> vec3 \<Rightarrow> quaternion \<Rightarrow> vec3 \<Rightarrow> mat44" where
  \<comment> \<open>The first argument is pyrr's property \<open>Quaternion.matrix44\<close>, the 4x4 array of
      a quaternion's rotation.\<close>
  "compose_matrix matrix44 position q scale =
     (let rotation_matrix = matrix44 q
      in matrix44_mul (matrix44_mul (translation_matrix position) rotation_matrix)
           (scale_matrix scale))"

section \<open>renderer.py: Renderer._render\<close>

text \<open>
  The renderer talks to the graphics context, to the uniforms and vertex arrays made
  in \<open>_setup\<close>, and to the scene and the camera. The model records each of these
  calls, in the order \<open>_render\<close> makes them.
\<close>

datatype geometry_class = PlaneObject3D | IcosahedronObject3D | CubeObject3D | CircleObject3D

datatype vertex_array = Plane_vao | Icosahedron_vao | Cube_vao | Circle_vao

datatype primitive = TRIANGLES | TRIANGLE_FAN

datatype call =
    Ctx_clear vec3
  | Scene_update_world_matrix
  | Camera_update_world_matrix
  | View_projection_matrix_write mat44
  | Ambient_light_set vec3
  | Point_light_color_set vec3
  | Point_light_position_set vec3
  | Model_matrix_write mat44
  | Object_color_set vec3
  | Model_size_set vec3
  | Vao_render vertex_array primitive

record 'cls object_3d =
  object_type :: 'cls
  world_matrix :: mat44
  color :: vec3
  size :: vec3

record point_light =
  light_color :: vec3
  world_position :: vec3

record 'cls scene =
  background_color :: vec3
  ambient_light :: vec3
  auto_update :: bool
  render_list_geometry :: "'cls object_3d list"
  render_list_point_lights :: "point_light list"

record 'oid camera =
  camera_parent :: "'oid option"
  projection_matrix :: mat44
  camera_world_matrix :: mat44

text \<open>
  The classes of \<open>pysg.object_3d\<close>, the two \<open>update_world_matrix\<close> methods and the
  matrix inverse are not part of the renderer; they are the parameters of the model.
  An update may change the scene and the camera, which may be a node of the scene.
\<close>

record ('cls, 'oid) collaborators =
  issubclass :: "'cls \<Rightarrow> geometry_class \<Rightarrow> bool"
  scene_update_world_matrix :: "'cls scene \<times> 'oid camera \<Rightarrow> 'cls scene \<times> 'oid camera"
  camera_update_world_matrix :: "'cls scene \<times> 'oid camera \<Rightarrow> 'cls scene \<times> 'oid camera"
  matrix_inverse :: "mat44 \<Rightarrow> mat44"

definition py_assert :: "bool \<Rightarrow> py_error + unit" where
  \<comment> \<open>The statement \<open>assert v\<close>, given the truth value of \<open>v\<close>.\<close>
  "py_assert v = (if v then Inr () else Inl AssertionError)"

definition exception_instance_truth :: bool where
  \<comment> \<open>An exception object defines neither \<open>__bool__\<close> nor \<open>__len__\<close>: it is true.\<close>
  "exception_instance_truth = True"

definition render_object ::
  "('cls \<Rightarrow> geometry_class \<Rightarrow> bool) \<Rightarrow> 'cls object_3d \<Rightarrow> call list \<Rightarrow> py_error + call list" where
  \<comment> \<open>The body of the loop over the geometry of the render list.\<close>
  "render_object is_sub object_3d calls =
     (let calls = calls @ [Model_matrix_write (world_matrix object_3d),
                           Object_color_set (color object_3d),
                           Model_size_set (size object_3d)]
      in if is_sub (object_type object_3d) PlaneObject3D then
           Inr (calls @ [Vao_render Plane_vao TRIANGLES])
         else if is_sub (object_type object_3d) IcosahedronObject3D then
           Inr (calls @ [Vao_render Icosahedron_vao TRIANGLES])
         else if is_sub (object_type object_3d) CubeObject3D then
           Inr (calls @ [Vao_render Cube_vao TRIANGLES])
         else if is_sub (object_type object_3d) CircleObject3D then
           Inr (calls @ [Vao_render Circle_vao TRIANGLE_FAN])
         else
           bind_err (py_assert exception_instance_truth) (\<lambda>_. Inr calls))"

fun render_geometry ::
  "('cls \<Rightarrow> geometry_class \<Rightarrow> bool) \<Rightarrow> 'cls object_3d list \<Rightarrow> call list \<Rightarrow> py_error + call list" where
  "render_geometry is_sub [] calls = Inr calls"
| "render_geometry is_sub (object_3d # objects) calls =
     bind_err (render_object is_sub object_3d calls) (render_geometry is_sub objects)"

definition update_matrices ::
  "('cls, 'oid) collaborators \<Rightarrow> 'cls scene \<times> 'oid camera \<Rightarrow> call list \<Rightarrow>
     ('cls scene \<times> 'oid camera) \<times> call list" where
  \<comment> \<open>The two conditional updates of \<open>_render\<close>.\<close>
  "update_matrices env world calls =
     (let (world, calls) =
            (if auto_update (fst world)
             then (scene_update_world_matrix env world, calls @ [Scene_update_world_matrix])
             else (world, calls))
      in if camera_parent (snd world) = None
         then (camera_update_world_matrix env world, calls @ [Camera_update_world_matrix])
         else (world, calls))"

definition renderer_render ::
  "('cls, 'oid) collaborators \<Rightarrow> 'cls scene \<times> 'oid camera \<Rightarrow>
     py_error + (('cls scene \<times> 'oid camera) \<times> call list)" where
  \<comment> \<open>\<open>Renderer._render\<close>: the scene and camera it leaves, and the calls it made.\<close>
  "renderer_render env world =
     (let calls = [Ctx_clear (background_color (fst world))];
          (world, calls) = update_matrices env world calls;
          view_projection_mat44 =
            matrix44_mul (projection_matrix (snd world))
              (matrix_inverse env (camera_world_matrix (snd world)));
          calls = calls @ [View_projection_matrix_write view_projection_mat44,
                           Ambient_light_set (ambient_light (fst world))];
          calls = (if length (render_list_point_lights (fst world)) > 0
                   then calls @
                     [Point_light_color_set
                        (light_color (render_list_point_lights (fst world) ! 0)),
                      Point_light_position_set
                        (world_position (render_list_point_lights (fst world) ! 0))]
                   else calls)
      in bind_err (render_geometry (issubclass env) (render_list_geometry (fst world)) calls)
           (\<lambda>calls. Inr (world, calls)))"

section \<open>Properties of the quadratic solver\<close>

lemma quadrature_term_pos_b:
  fixes b r :: real
  assumes "0 < b" and "0 < r"
  shows "- (1 / 2) * (b + r) \<noteq> 0"
  using assms by simp

lemma quadrature_term_nonpos_b:
  fixes b r :: real
  assumes "\<not> 0 < b" and "0 < r"
  shows "- (1 / 2) * (b - r) \<noteq> 0"
  using assms by simp

lemma solve_two_roots:
  assumes "a \<noteq> 0" and "b * b - 4 * a * c > 0"
  shows "solve_quadratic_equation a b c =
    (let q = (if b > 0 then - (1 / 2) * (b + sqrt (b * b - 4 * a * c))
              else - (1 / 2) * (b - sqrt (b * b - 4 * a * c)))
     in Inr [q / a, c / q])"
proof -
  let ?d = "b * b - 4 * a * c"
  have r: "0 < sqrt ?d" using assms(2) by simp
  show ?thesis
  proof (cases "0 < b")
    case True
    from True r have "- (1 / 2) * (b + sqrt ?d) \<noteq> 0" by (rule quadrature_term_pos_b)
    with True assms show ?thesis
      by (simp add: solve_quadratic_equation_def Let_def math_sqrt_def bind_err_def
          py_truediv_def)
  next
    case False
    from False r have "- (1 / 2) * (b - sqrt ?d) \<noteq> 0" by (rule quadrature_term_nonpos_b)
    with False assms show ?thesis
      by (simp add: solve_quadratic_equation_def Let_def math_sqrt_def bind_err_def
          py_truediv_def)
  qed
qed

lemma solve_one_root:
  assumes "a \<noteq> 0" and "b * b - 4 * a * c = 0"
  shows "solve_quadratic_equation a b c = Inr [- b / (2 * a)]"
  using assms
  by (simp add: solve_quadratic_equation_def Let_def bind_err_def py_truediv_def)

lemma solve_no_root:
  assumes "b * b - 4 * a * c < 0"
  shows "solve_quadratic_equation a b c = Inr []"
  using assms
  by (simp add: solve_quadratic_equation_def Let_def)

text \<open>
  Claim C1: for nonzero \<open>a\<close> the solver returns no root for a negative
  discriminant, the root \<open>-b / (2 * a)\<close> for a zero discriminant, and the roots
  \<open>q / a\<close> and \<open>c / q\<close> for a positive one, where \<open>q\<close> is
  \<open>-0.5 * (b + sqrt delta)\<close> for positive \<open>b\<close> and \<open>-0.5 * (b - sqrt delta)\<close>
  otherwise; \<open>(1, 0, -4)\<close> gives 2 and -2, \<open>(1, -2, 1)\<close> gives 1 and
  \<open>(1, 0, 4)\<close> gives nothing.
\<close>

theorem solve_quadratic_equation_roots:
  assumes "a \<noteq> 0"
  shows "(b * b - 4 * a * c < 0 \<longrightarrow> solve_quadratic_equation a b c = Inr [])
    \<and> (b * b - 4 * a * c = 0 \<longrightarrow> solve_quadratic_equation a b c = Inr [- b / (2 * a)])
    \<and> (b * b - 4 * a * c > 0 \<longrightarrow>
         solve_quadratic_equation a b c =
           (let q = (if b > 0 then - (1 / 2) * (b + sqrt (b * b - 4 * a * c))
                     else - (1 / 2) * (b - sqrt (b * b - 4 * a * c)))
            in Inr [q / a, c / q]))
    \<and> solve_quadratic_equation 1 0 (- 4) = Inr [2, - 2]
    \<and> solve_quadratic_equation 1 (- 2) 1 = Inr [1]
    \<and> solve_quadratic_equation 1 0 4 = Inr []"
proof -
  have sq: "sqrt 16 = 4" using real_sqrt_abs [of 4] by simp
  have e1: "solve_quadratic_equation 1 0 (- 4) = Inr [2, - 2]"
    using solve_two_roots [of 1 0 "- 4"] by (simp add: sq)
  have e2: "solve_quadratic_equation 1 (- 2) 1 = Inr [1]"
    using solve_one_root [of 1 "- 2" 1] by simp
  have e3: "solve_quadratic_equation 1 0 4 = Inr []"
    using solve_no_root [of 0 1 4] by simp
  show ?thesis
    using assms solve_no_root [of b a c] solve_one_root [of a b c] solve_two_roots [of a b c]
      e1 e2 e3
    by simp
qed

theorem solve_quadratic_equation_roots_witness:
  "(2::real) \<noteq> 0 \<and> solve_quadratic_equation 2 (- 3) 1 = Inr [1, 1 / 2]"
  using solve_quadratic_equation_roots [of 2 "- 3" 1] by simp

text \<open>
  Claim C9: for nonzero \<open>a\<close> the solver never divides by zero. With a positive
  discriminant the quadrature term \<open>q\<close> is not zero, and the solver returns a list
  of roots for every \<open>b\<close> and \<open>c\<close>.
\<close>

theorem solve_quadratic_equation_total:
  assumes "a \<noteq> 0"
  shows "(b * b - 4 * a * c > 0 \<longrightarrow>
           (if b > 0 then - (1 / 2) * (b + sqrt (b * b - 4 * a * c))
            else - (1 / 2) * (b - sqrt (b * b - 4 * a * c))) \<noteq> 0)
    \<and> (\<exists>roots. solve_quadratic_equation a b c = Inr roots)
    \<and> solve_quadratic_equation a b c \<noteq> Inl ZeroDivisionError"
proof -
  have q: "b * b - 4 * a * c > 0 \<longrightarrow>
           (if b > 0 then - (1 / 2) * (b + sqrt (b * b - 4 * a * c))
            else - (1 / 2) * (b - sqrt (b * b - 4 * a * c))) \<noteq> 0"
  proof
    assume d: "b * b - 4 * a * c > 0"
    then have r: "0 < sqrt (b * b - 4 * a * c)" by simp
    show "(if b > 0 then - (1 / 2) * (b + sqrt (b * b - 4 * a * c))
            else - (1 / 2) * (b - sqrt (b * b - 4 * a * c))) \<noteq> 0"
      using r quadrature_term_pos_b [of b "sqrt (b * b - 4 * a * c)"]
        quadrature_term_nonpos_b [of b "sqrt (b * b - 4 * a * c)"]
      by (cases "0 < b") simp_all
  qed
  have ex: "\<exists>roots. solve_quadratic_equation a b c = Inr roots"
  proof -
    consider "b * b - 4 * a * c > 0" | "b * b - 4 * a * c = 0" | "b * b - 4 * a * c < 0"
      by linarith
    then show ?thesis
    proof cases
      case 1
      with assms show ?thesis using solve_two_roots [of a b c] by (simp add: Let_def)
    next
      case 2
      with assms show ?thesis using solve_one_root [of a b c] by simp
    next
      case 3
      then show ?thesis using solve_no_root [of b a c] by simp
    qed
  qed
  from ex have "solve_quadratic_equation a b c \<noteq> Inl ZeroDivisionError" by auto
  with q ex show ?thesis by blast
qed

theorem solve_quadratic_equation_total_witness:
  "(1::real) \<noteq> 0 \<and> (\<exists>roots. solve_quadratic_equation 1 1 (- 1) = Inr roots)"
  using solve_quadratic_equation_total [of 1 1 "- 1"] by simp

section \<open>Properties of is_angle\<close>

text \<open>
  Claim C10: \<open>is_angle\<close> is true exactly when the angle lies between the lower and
  the upper limit. The upper limit is 360 in degrees, \<open>2 * pi\<close> in radians, and
  infinite without the limit to a circle. With the limit to a circle and negative
  angles allowed the lower limit is -360 in degrees and in radians alike, so in
  radians every angle from -360 up to \<open>-2 * pi\<close> is accepted.
\<close>

theorem is_angle_limits:
  "is_angle angle in_degrees allow_negative limit_to_circle =
     (float_le
        (if limit_to_circle then (if allow_negative then Fin (- 360) else Fin 0)
         else (if allow_negative then NegInf else Fin 0))
        angle
      \<and> float_le angle
        (if limit_to_circle then (if in_degrees then Fin 360 else Fin (2 * pi))
         else PosInf))
   \<and> (\<forall>v. is_angle (Fin v) in_degrees True True =
          (- 360 \<le> v \<and> v \<le> (if in_degrees then 360 else 2 * pi)))
   \<and> (\<forall>v. - 360 \<le> v \<and> v < - (2 * pi) \<longrightarrow> is_angle (Fin v) False True True)"
proof -
  have general: "is_angle angle in_degrees allow_negative limit_to_circle =
     (float_le
        (if limit_to_circle then (if allow_negative then Fin (- 360) else Fin 0)
         else (if allow_negative then NegInf else Fin 0))
        angle
      \<and> float_le angle
        (if limit_to_circle then (if in_degrees then Fin 360 else Fin (2 * pi))
         else PosInf))"
    by (simp add: is_angle_def)
  have circle: "is_angle (Fin v) in_degrees True True =
          (- 360 \<le> v \<and> v \<le> (if in_degrees then 360 else 2 * pi))" for v
    by (simp add: is_angle_def)
  have radians: "is_angle (Fin v) False True True" if "- 360 \<le> v \<and> v < - (2 * pi)" for v
  proof -
    have "0 < pi" by (rule pi_gt_zero)
    with that have "v \<le> 2 * pi" by linarith
    with that show ?thesis by (simp add: is_angle_def)
  qed
  from general circle radians show ?thesis by blast
qed

theorem is_angle_limits_witness:
  "- 360 \<le> (- 100 :: real) \<and> (- 100 :: real) < - (2 * pi) \<and> is_angle (Fin (- 100)) False True True"
proof -
  have "pi < 4" by (rule pi_less_4)
  then have h: "- 360 \<le> (- 100 :: real) \<and> (- 100 :: real) < - (2 * pi)" by simp
  with is_angle_limits [of "Fin (- 100)" False True True] show ?thesis by blast
qed

section \<open>Properties of ray_intersect_sphere\<close>

lemma intersection_points_filter:
  "intersection_points ray_origin ray_dir t_list ret =
     ret @ map (\<lambda>t. vec3_add ray_origin (vec3_scale ray_dir t)) (filter (\<lambda>t. \<not> t < 0) t_list)"
  by (induction t_list arbitrary: ret) (simp_all add: not_less)

lemma solve_monic_returns: "\<exists>t_list. solve_quadratic_equation 1 b c = Inr t_list"
proof -
  consider "b * b - 4 * 1 * c > 0" | "b * b - 4 * 1 * c = 0" | "b * b - 4 * 1 * c < 0"
    by linarith
  then show ?thesis
  proof cases
    case 1
    then show ?thesis using solve_two_roots [of 1 b c] by (simp add: Let_def)
  next
    case 2
    then show ?thesis using solve_one_root [of 1 b c] by simp
  next
    case 3
    then show ?thesis using solve_no_root [of b 1 c] by simp
  qed
qed

lemma solve_monic_negative_roots:
  assumes "0 \<le> b" and "0 < c" and "solve_quadratic_equation 1 b c = Inr t_list"
  shows "\<forall>t \<in> set t_list. t < 0"
proof -
  consider "b * b - 4 * 1 * c > 0" | "b * b - 4 * 1 * c = 0" | "b * b - 4 * 1 * c < 0"
    by linarith
  then show ?thesis
  proof cases
    case 1
    then have r: "0 < sqrt (b * b - 4 * 1 * c)" by simp
    from 1 assms(1,2) have bpos: "0 < b"
      by (cases "b = 0") simp_all
    let ?q = "- (1 / 2) * (b + sqrt (b * b - 4 * 1 * c))"
    have "0 < b + sqrt (b * b - 4 * 1 * c)" using bpos r by (rule add_pos_pos)
    then have qneg: "?q < 0" by simp
    have "c / ?q < 0" using assms(2) qneg by (simp only: divide_pos_neg)
    moreover have "t_list = [?q / 1, c / ?q]"
      using solve_two_roots [of 1 b c] 1 bpos assms(3) by (simp add: Let_def)
    ultimately show ?thesis using qneg by simp
  next
    case 2
    then have "0 < b * b" using assms(2) by simp
    then have "0 < b" using assms(1) by (cases "b = 0") simp_all
    moreover have "t_list = [- b / (2 * 1)]"
      using solve_one_root [of 1 b c] 2 assms(3) by simp
    ultimately show ?thesis by simp
  next
    case 3
    then show ?thesis using solve_no_root [of b 1 c] assms(3) by simp
  qed
qed

text \<open>
  Claim C4: \<open>ray_intersect_sphere\<close> solves the quadratic with \<open>a = 1\<close>,
  \<open>b = 2 * dot(direction, origin - center)\<close> and
  \<open>c = |origin - center|^2 - radius^2\<close>, drops every root below zero and returns
  \<open>origin + direction * t\<close> for each root \<open>t\<close> that is left. The ray from
  \<open>(0, 0, -10)\<close> along \<open>(0, 0, 1)\<close> meets the unit sphere at the origin in the
  points with \<open>z = 1\<close> and \<open>z = -1\<close>; a ray that starts outside the sphere and
  points away from it meets it nowhere.
\<close>

theorem ray_intersect_sphere_points:
  "(\<exists>t_list.
      solve_quadratic_equation 1
        (2 * np_dot3 (ray_direction ry) (vec3_sub (ray_position ry) (sphere_position sph)))
        (np_dot3 (vec3_sub (ray_position ry) (sphere_position sph))
                 (vec3_sub (ray_position ry) (sphere_position sph))
           - sphere_radius sph * sphere_radius sph) = Inr t_list
      \<and> ray_intersect_sphere ry sph =
          Inr (map (\<lambda>t. vec3_add (ray_position ry) (vec3_scale (ray_direction ry) t))
                 (filter (\<lambda>t. \<not> t < 0) t_list)))
   \<and> ray_intersect_sphere
        \<lparr>ray_position = (0, 0, - 10), ray_direction = (0, 0, 1)\<rparr>
        \<lparr>sphere_position = (0, 0, 0), sphere_radius = 1\<rparr> = Inr [(0, 0, 1), (0, 0, - 1)]
   \<and> (np_dot3 (ray_direction ry) (vec3_sub (ray_position ry) (sphere_position sph)) \<ge> 0
        \<and> np_dot3 (vec3_sub (ray_position ry) (sphere_position sph))
                 (vec3_sub (ray_position ry) (sphere_position sph))
           > sphere_radius sph * sphere_radius sph
      \<longrightarrow> ray_intersect_sphere ry sph = Inr [])"
proof -
  let ?b = "2 * np_dot3 (ray_direction ry) (vec3_sub (ray_position ry) (sphere_position sph))"
  let ?c = "np_dot3 (vec3_sub (ray_position ry) (sphere_position sph))
                 (vec3_sub (ray_position ry) (sphere_position sph))
           - sphere_radius sph * sphere_radius sph"
  obtain t_list where t: "solve_quadratic_equation 1 ?b ?c = Inr t_list"
    using solve_monic_returns by blast
  have general: "ray_intersect_sphere ry sph =
          Inr (map (\<lambda>t. vec3_add (ray_position ry) (vec3_scale (ray_direction ry) t))
                 (filter (\<lambda>t. \<not> t < 0) t_list))"
    using t by (simp add: ray_intersect_sphere_def Let_def bind_err_def intersection_points_filter)
  have sq: "sqrt 4 = 2" using real_sqrt_abs [of 2] by simp
  have "solve_quadratic_equation 1 (- 20) 99 = Inr [11, 9]"
    using solve_two_roots [of 1 "- 20" 99] by (simp add: sq)
  then have example: "ray_intersect_sphere
        \<lparr>ray_position = (0, 0, - 10), ray_direction = (0, 0, 1)\<rparr>
        \<lparr>sphere_position = (0, 0, 0), sphere_radius = 1\<rparr> = Inr [(0, 0, 1), (0, 0, - 1)]"
    by (simp add: ray_intersect_sphere_def Let_def bind_err_def)
  have away: "ray_intersect_sphere ry sph = Inr []"
    if "0 \<le> ?b" and "0 < ?c"
  proof -
    have "\<forall>t \<in> set t_list. t < 0"
      using solve_monic_negative_roots [OF that t] .
    then have "filter (\<lambda>t. \<not> t < 0) t_list = []"
      by (simp add: filter_empty_conv)
    with general show ?thesis by simp
  qed
  from t general example away show ?thesis by simp
qed

theorem ray_intersect_sphere_points_witness:
  "np_dot3 (0, 0, - 1) (vec3_sub (0, 0, - 10) (0, 0, 0)) \<ge> 0
   \<and> np_dot3 (vec3_sub (0, 0, - 10) (0, 0, 0)) (vec3_sub (0, 0, - 10) (0, 0, 0)) > 1 * 1
   \<and> ray_intersect_sphere
     \<lparr>ray_position = (0, 0, - 10), ray_direction = (0, 0, - 1)\<rparr>
     \<lparr>sphere_position = (0, 0, 0), sphere_radius = 1\<rparr> = Inr []"
  using ray_intersect_sphere_points
    [of "\<lparr>ray_position = (0, 0, - 10), ray_direction = (0, 0, - 1)\<rparr>"
        "\<lparr>sphere_position = (0, 0, 0), sphere_radius = 1\<rparr>"]
  by simp

section \<open>Properties of the quaternion functions\<close>

lemma math_atan2_pole: "math_atan2 1 0 = pi / 2"
  by (simp add: math_atan2_def)

text \<open>
  Claim C5: when \<open>x * y + z * w\<close> exceeds 0.499 times the squared norm of the
  quaternion, \<open>quaternion_to_euler_angles\<close> returns an attitude of 90 degrees and a
  bank of 0; when it is below -0.499 times the squared norm, an attitude of -90
  degrees and a bank of 0. The heading is twice the angle of \<open>(w, x)\<close>, negated at
  the south pole.
\<close>

theorem quaternion_to_euler_angles_gimbal_lock:
  "(qx q * qy q + qz q * qw q
      > (499 / 1000) * (qx q * qx q + qy q * qy q + qz q * qz q + qw q * qw q)
    \<longrightarrow> quaternion_to_euler_angles q =
          Inr (0, np_rad2deg (2 * math_atan2 (qx q) (qw q)), 90))
   \<and> (qx q * qy q + qz q * qw q
      < - (499 / 1000) * (qx q * qx q + qy q * qy q + qz q * qz q + qw q * qw q)
    \<longrightarrow> quaternion_to_euler_angles q =
          Inr (0, np_rad2deg (- 2 * math_atan2 (qx q) (qw q)), - 90))"
proof -
  let ?unit = "qx q * qx q + qy q * qy q + qz q * qz q + qw q * qw q"
  let ?test = "qx q * qy q + qz q * qw q"
  have unit: "0 \<le> ?unit" by simp
  have north: "quaternion_to_euler_angles q =
          Inr (0, np_rad2deg (2 * math_atan2 (qx q) (qw q)), 90)"
    if "?test > (499 / 1000) * ?unit"
    using that by (simp add: quaternion_to_euler_angles_def Let_def bind_err_def np_rad2deg_def)
  have south: "quaternion_to_euler_angles q =
          Inr (0, np_rad2deg (- 2 * math_atan2 (qx q) (qw q)), - 90)"
    if lt: "?test < - (499 / 1000) * ?unit"
  proof -
    have "- (499 / 1000) * u \<le> (499 / 1000) * u" if "0 \<le> u" for u :: real
      using that by linarith
    from this [OF unit] lt have "\<not> ?test > (499 / 1000) * ?unit" by linarith
    with lt show ?thesis
      by (simp add: quaternion_to_euler_angles_def Let_def bind_err_def np_rad2deg_def)
  qed
  from north south show ?thesis by blast
qed

theorem quaternion_to_euler_angles_gimbal_lock_witness:
  "qx (Quaternion 1 1 0 0) * qy (Quaternion 1 1 0 0) + qz (Quaternion 1 1 0 0) * qw (Quaternion 1 1 0 0)
      > (499 / 1000) * (qx (Quaternion 1 1 0 0) * qx (Quaternion 1 1 0 0)
          + qy (Quaternion 1 1 0 0) * qy (Quaternion 1 1 0 0)
          + qz (Quaternion 1 1 0 0) * qz (Quaternion 1 1 0 0)
          + qw (Quaternion 1 1 0 0) * qw (Quaternion 1 1 0 0))
   \<and> quaternion_to_euler_angles (Quaternion 1 1 0 0) = Inr (0, 180, 90)"
  using quaternion_to_euler_angles_gimbal_lock [of "Quaternion 1 1 0 0"]
  by (simp add: math_atan2_pole np_rad2deg_def)

lemma quaternion_dot_neg: "quaternion_dot q (quaternion_neg q) = - quaternion_dot q q"
  by (cases q) simp

lemma quaternion_dot_cross_right:
  "quaternion_dot q (quaternion_cross q r) = quaternion_dot q q * qw r"
  by (cases q; cases r) (simp add: algebra_simps)

lemma quaternion_dot_cross_left:
  "quaternion_dot q (quaternion_cross r q) = quaternion_dot q q * qw r"
  by (cases q; cases r) (simp add: algebra_simps)

lemma qw_create_from_axis_rotation:
  "qw (create_from_axis_rotation axis theta) = cos (theta * (1 / 2))"
  by (cases axis) simp

lemma cos_quarter_turn_small: "\<bar>cos (pi / 2 * (1 / 2))\<bar> \<le> 1 - 1 / 10 ^ 12"
proof -
  have "pi / 2 * (1 / 2) = pi / 4" by simp
  then have c: "cos (pi / 2 * (1 / 2)) = sqrt 2 / 2" by (simp only: cos_45)
  have "sqrt 2 < 3 / 2"
    by (rule real_less_lsqrt) (simp_all add: power2_eq_square)
  then have upper: "sqrt 2 / 2 < 3 / 4" by linarith
  have lower: "0 \<le> sqrt 2 / 2" by simp
  have "(3 / 4 :: real) \<le> 1 - 1 / 10 ^ 12" by simp
  with upper lower have "\<bar>sqrt 2 / 2\<bar> \<le> 1 - 1 / 10 ^ 12" by linarith
  with c show ?thesis by (simp only:)
qed

text \<open>
  Claim C6: \<open>quaternion_are_equal\<close> is true exactly when the absolute value of the
  dot product exceeds \<open>1 - epsilon\<close>, with \<open>epsilon = 1e-12\<close> when the caller gives
  none. So a unit quaternion equals itself and its negation, and does not equal
  its product, on either side, with a rotation by 90 degrees about a unit axis.
\<close>

theorem quaternion_are_equal_spec:
  "quaternion_are_equal q1 q2 epsilon =
     (\<bar>quaternion_dot q1 q2\<bar> > 1 - (case epsilon of None \<Rightarrow> 1 / 10 ^ 12 | Some e \<Rightarrow> e))
   \<and> (quaternion_dot q q = 1 \<longrightarrow>
        quaternion_are_equal q q None
        \<and> quaternion_are_equal q (quaternion_neg q) None
        \<and> (\<forall>axis. np_dot3 axis axis = 1 \<longrightarrow>
             \<not> quaternion_are_equal q
                 (quaternion_cross q (create_from_axis_rotation axis (pi / 2))) None
             \<and> \<not> quaternion_are_equal q
                 (quaternion_cross (create_from_axis_rotation axis (pi / 2)) q) None))"
proof -
  have general: "quaternion_are_equal q1 q2 epsilon =
     (\<bar>quaternion_dot q1 q2\<bar> > 1 - (case epsilon of None \<Rightarrow> 1 / 10 ^ 12 | Some e \<Rightarrow> e))"
    by (simp add: quaternion_are_equal_def Let_def)
  have self: "quaternion_are_equal q q None" if "quaternion_dot q q = 1"
    using that by (simp add: quaternion_are_equal_def)
  have neg: "quaternion_are_equal q (quaternion_neg q) None" if "quaternion_dot q q = 1"
    using that by (simp add: quaternion_are_equal_def quaternion_dot_neg)
  have rot: "\<not> quaternion_are_equal q
                 (quaternion_cross q (create_from_axis_rotation axis (pi / 2))) None
             \<and> \<not> quaternion_are_equal q
                 (quaternion_cross (create_from_axis_rotation axis (pi / 2)) q) None"
    if "quaternion_dot q q = 1" for axis
    using that cos_quarter_turn_small
    by (simp add: quaternion_are_equal_def quaternion_dot_cross_right
        quaternion_dot_cross_left qw_create_from_axis_rotation not_less)
  from general self neg rot show ?thesis by blast
qed

theorem quaternion_are_equal_spec_witness:
  "quaternion_dot (Quaternion 0 0 0 1) (Quaternion 0 0 0 1) = 1
   \<and> np_dot3 (0, 0, 1) (0, 0, 1) = 1
   \<and> quaternion_are_equal (Quaternion 0 0 0 1) (Quaternion 0 0 0 1) None
   \<and> quaternion_are_equal (Quaternion 0 0 0 1) (quaternion_neg (Quaternion 0 0 0 1)) None
   \<and> \<not> quaternion_are_equal (Quaternion 0 0 0 1)
         (quaternion_cross (Quaternion 0 0 0 1)
            (create_from_axis_rotation (0, 0, 1) (pi / 2))) None"
proof -
  have u: "quaternion_dot (Quaternion 0 0 0 1) (Quaternion 0 0 0 1) = 1" by simp
  have a: "np_dot3 (0, 0, 1) (0, 0, 1) = 1" by simp
  from u a quaternion_are_equal_spec [of _ _ _ "Quaternion 0 0 0 1"] show ?thesis by blast
qed

section \<open>Properties of compose_matrix\<close>

lemma mat_vec_np_dot44:
  "mat_vec (np_dot44 a b) v = mat_vec a (mat_vec b v)"
  by (cases a rule: transpose44.cases; cases b rule: transpose44.cases; cases v)
    (simp add: algebra_simps)

lemma transpose44_np_dot44:
  "transpose44 (np_dot44 a b) = np_dot44 (transpose44 b) (transpose44 a)"
  by (cases a rule: transpose44.cases; cases b rule: transpose44.cases)
    (simp add: algebra_simps)

lemma transpose44_twice: "transpose44 (transpose44 a) = a"
  by (cases a rule: transpose44.cases) simp

lemma np_dot44_assoc: "np_dot44 (np_dot44 a b) c = np_dot44 a (np_dot44 b c)"
  by (cases a rule: transpose44.cases; cases b rule: transpose44.cases;
      cases c rule: transpose44.cases)
    (simp add: algebra_simps)

text \<open>
  Claim C7: \<open>compose_matrix\<close> is the product of the translation matrix, the rotation
  matrix of the quaternion and the scale matrix, in this order, as OpenGL reads the
  arrays: applied to a column vector it scales first, then rotates, then
  translates.
\<close>

theorem compose_matrix_order:
  "compose_matrix matrix44 position q scale =
     matrix44_mul (matrix44_mul (translation_matrix position) (matrix44 q)) (scale_matrix scale)
   \<and> gl_matrix (compose_matrix matrix44 position q scale) =
       np_dot44 (gl_matrix (translation_matrix position))
         (np_dot44 (gl_matrix (matrix44 q)) (gl_matrix (scale_matrix scale)))
   \<and> gl_apply (compose_matrix matrix44 position q scale) v =
       gl_apply (translation_matrix position)
         (gl_apply (matrix44 q) (gl_apply (scale_matrix scale) v))
   \<and> gl_apply (scale_matrix (s0, s1, s2)) (v0, v1, v2, v3) = (s0 * v0, s1 * v1, s2 * v2, v3)
   \<and> gl_apply (translation_matrix (p0, p1, p2)) (v0, v1, v2, 1) = (v0 + p0, v1 + p1, v2 + p2, 1)"
proof -
  have product: "compose_matrix matrix44 position q scale =
     matrix44_mul (matrix44_mul (translation_matrix position) (matrix44 q)) (scale_matrix scale)"
    by (simp add: compose_matrix_def)
  have gl: "gl_matrix (compose_matrix matrix44 position q scale) =
       np_dot44 (gl_matrix (translation_matrix position))
         (np_dot44 (gl_matrix (matrix44 q)) (gl_matrix (scale_matrix scale)))"
    by (simp only: compose_matrix_def Let_def matrix44_mul_def gl_matrix_def
        transpose44_np_dot44 np_dot44_assoc)
  have applied: "gl_apply (compose_matrix matrix44 position q scale) v =
       gl_apply (translation_matrix position)
         (gl_apply (matrix44 q) (gl_apply (scale_matrix scale) v))"
    by (simp only: gl_apply_def gl mat_vec_np_dot44)
  have scaled: "gl_apply (scale_matrix (s0, s1, s2)) (v0, v1, v2, v3) = (s0 * v0, s1 * v1, s2 * v2, v3)"
    by (simp add: gl_apply_def gl_matrix_def)
  have translated:
    "gl_apply (translation_matrix (p0, p1, p2)) (v0, v1, v2, 1) = (v0 + p0, v1 + p1, v2 + p2, 1)"
    by (simp add: gl_apply_def gl_matrix_def)
  from product gl applied scaled translated show ?thesis by simp
qed

section \<open>Properties of the renderer\<close>

lemma render_object_returns:
  "\<exists>new. render_object is_sub object_3d calls = Inr (calls @ new)
     \<and> Scene_update_world_matrix \<notin> set new \<and> Camera_update_world_matrix \<notin> set new"
  by (simp add: render_object_def Let_def bind_err_def py_assert_def exception_instance_truth_def)

lemma render_geometry_returns:
  "\<exists>new. render_geometry is_sub objects calls = Inr (calls @ new)
     \<and> Scene_update_world_matrix \<notin> set new \<and> Camera_update_world_matrix \<notin> set new"
proof (induction objects arbitrary: calls)
  case Nil
  then show ?case by simp
next
  case (Cons object_3d objects)
  obtain new1 where 1: "render_object is_sub object_3d calls = Inr (calls @ new1)"
    and n1: "Scene_update_world_matrix \<notin> set new1" "Camera_update_world_matrix \<notin> set new1"
    using render_object_returns by blast
  obtain new2 where 2: "render_geometry is_sub objects (calls @ new1) = Inr ((calls @ new1) @ new2)"
    and n2: "Scene_update_world_matrix \<notin> set new2" "Camera_update_world_matrix \<notin> set new2"
    using Cons.IH by blast
  have "render_geometry is_sub (object_3d # objects) calls = Inr (calls @ (new1 @ new2))"
    using 1 2 by (simp add: bind_err_def)
  moreover have "Scene_update_world_matrix \<notin> set (new1 @ new2)"
    "Camera_update_world_matrix \<notin> set (new1 @ new2)"
    using n1 n2 by simp_all
  ultimately show ?case by blast
qed

lemma renderer_render_calls:
  "\<exists>new. renderer_render env world =
      Inr (fst (update_matrices env world [Ctx_clear (background_color (fst world))]),
           snd (update_matrices env world [Ctx_clear (background_color (fst world))])
           @ View_projection_matrix_write
               (matrix44_mul
                 (projection_matrix
                   (snd (fst (update_matrices env world
                     [Ctx_clear (background_color (fst world))]))))
                 (matrix_inverse env
                   (camera_world_matrix
                     (snd (fst (update_matrices env world
                       [Ctx_clear (background_color (fst world))]))))))
           # new)
     \<and> Scene_update_world_matrix \<notin> set new \<and> Camera_update_world_matrix \<notin> set new"
proof -
  obtain world' calls' where u:
    "update_matrices env world [Ctx_clear (background_color (fst world))] = (world', calls')"
    by (cases "update_matrices env world [Ctx_clear (background_color (fst world))]")
  let ?vp = "View_projection_matrix_write
               (matrix44_mul (projection_matrix (snd world'))
                 (matrix_inverse env (camera_world_matrix (snd world'))))"
  let ?amb = "Ambient_light_set (ambient_light (fst world'))"
  let ?calls1 = "calls' @ [?vp, ?amb]"
  let ?lights = "[Point_light_color_set (light_color (render_list_point_lights (fst world') ! 0)),
           Point_light_position_set
             (world_position (render_list_point_lights (fst world') ! 0))]"
  let ?calls2 = "if length (render_list_point_lights (fst world')) > 0
     then ?calls1 @ ?lights else ?calls1"
  obtain new where g: "render_geometry (issubclass env) (render_list_geometry (fst world')) ?calls2
      = Inr (?calls2 @ new)"
    and n: "Scene_update_world_matrix \<notin> set new" "Camera_update_world_matrix \<notin> set new"
    using render_geometry_returns by blast
  have r: "renderer_render env world = Inr (world', ?calls2 @ new)"
    using g by (simp only: renderer_render_def Let_def u bind_err_def prod.case sum.case)
  let ?rest = "if length (render_list_point_lights (fst world')) > 0
     then ?amb # ?lights @ new else ?amb # new"
  have "?calls2 @ new = calls' @ ?vp # ?rest" by simp
  with r have "renderer_render env world = Inr (world', calls' @ ?vp # ?rest)"
    by (simp only:)
  moreover have "Scene_update_world_matrix \<notin> set ?rest"
    "Camera_update_world_matrix \<notin> set ?rest"
    using n by simp_all
  ultimately show ?thesis unfolding u fst_conv snd_conv by blast
qed

text \<open>
  Claim C3: an object of the render list whose type is none of the four geometry
  classes makes \<open>_render\<close> raise NotImplementedError. The code does not: it asserts
  the exception object, which is true, and goes on. No render list makes
  \<open>_render\<close> raise, and an object of an unknown type gets its three uniforms and
  no draw call.
\<close>

theorem renderer_render_unknown_geometry:
  "renderer_render env world \<noteq> Inl NotImplementedError
   \<and> (\<exists>result. renderer_render env world = Inr result)
   \<and> render_geometry (\<lambda>cls k. cls = Some k)
        [\<lparr>object_type = None, world_matrix = matrix44_identity,
          color = (1, 0, 0), size = (1, 1, 1)\<rparr>] []
      = Inr [Model_matrix_write matrix44_identity, Object_color_set (1, 0, 0),
             Model_size_set (1, 1, 1)]"
proof -
  obtain result where r: "renderer_render env world = Inr result"
    using renderer_render_calls [of env world] by blast
  have "render_geometry (\<lambda>cls k. cls = Some k)
        [\<lparr>object_type = None, world_matrix = matrix44_identity,
          color = (1, 0, 0), size = (1, 1, 1)\<rparr>] []
      = Inr [Model_matrix_write matrix44_identity, Object_color_set (1, 0, 0),
             Model_size_set (1, 1, 1)]"
    by (simp add: render_object_def bind_err_def py_assert_def exception_instance_truth_def)
  with r show ?thesis by simp
qed

text \<open>
  Claim C8: \<open>_render\<close> calls \<open>scene.update_world_matrix()\<close> exactly when
  \<open>scene.auto_update\<close> is set, and \<open>camera.update_world_matrix()\<close> exactly when the
  camera has no parent. Both calls come before the view-projection matrix is
  written, and that matrix is the camera's projection matrix times the inverse of
  its world matrix, read after the updates.
\<close>

theorem renderer_render_updates_first:
  fixes env :: "('cls, 'oid) collaborators" and world :: "'cls scene \<times> 'oid camera"
  defines "world1 \<equiv>
    (if auto_update (fst world) then scene_update_world_matrix env world else world)"
  defines "world2 \<equiv>
    (if camera_parent (snd world1) = None then camera_update_world_matrix env world1 else world1)"
  shows "\<exists>before after.
     renderer_render env world =
       Inr (world2,
            before
            @ View_projection_matrix_write
                (matrix44_mul (projection_matrix (snd world2))
                   (matrix_inverse env (camera_world_matrix (snd world2))))
            # after)
     \<and> (Scene_update_world_matrix \<in> set before \<longleftrightarrow> auto_update (fst world))
     \<and> (Camera_update_world_matrix \<in> set before \<longleftrightarrow> camera_parent (snd world1) = None)
     \<and> Scene_update_world_matrix \<notin> set after
     \<and> Camera_update_world_matrix \<notin> set after"
proof -
  let ?u = "update_matrices env world [Ctx_clear (background_color (fst world))]"
  have w: "fst ?u = world2"
    by (simp add: update_matrices_def world1_def world2_def Let_def)
  have s: "Scene_update_world_matrix \<in> set (snd ?u) \<longleftrightarrow> auto_update (fst world)"
    by (simp add: update_matrices_def Let_def)
  have c: "Camera_update_world_matrix \<in> set (snd ?u) \<longleftrightarrow> camera_parent (snd world1) = None"
    by (simp add: update_matrices_def world1_def Let_def)
  from renderer_render_calls [of env world] w s c show ?thesis
    by (metis (no_types, lifting))
qed

section \<open>Properties of the Euler angle conversions\<close>




















end
